theory Spec2Isabelle
  imports Complex_Main "HOL-Library.Product_Lexorder"
begin

section \<open>The cache collaborator\<close>

text \<open>
  The rate limiter and the anti-spam engine keep all their state in the shared cache
  (\<open>cache.get(key)\<close>, \<open>cache.set(key, value, ttlSeconds)\<close>). Every key family has its own
  literal prefix (\<open>ratelimit_\<close>, \<open>violations_\<close>, \<open>tempban_\<close>, \<open>spam_freq_\<close>,
  \<open>spam_content_\<close>, \<open>spam_violations_\<close>), so the families never share a key (lemma
  \<open>key_families_disjoint\<close> below) and each family is a map of its own, from the full key
  string to the stored value and the instant (in ms) at which the entry expires.

  The limiter and the engine are written against the interface and wrap their calls in
  \<open>try/catch\<close>; a call of the collaborator may throw. The field \<open>faults\<close> is the schedule
  of the coming cache calls: each call takes the head, \<open>True\<close> makes that call throw, and
  an exhausted schedule means that no further call throws. All clock readings taken during
  one check are the same millisecond \<open>now\<close>. Capacity limits of the backing store are not
  part of the model.
\<close>

datatype error = CacheError

record violation =
  vtype :: string
  vtimestamp :: int

record banData =
  banUserId :: string
  bannedAt :: int
  duration :: int
  reason :: string

record freqEntry =
  ftimestamp :: int
  messageId :: "string option"

record contentEntry =
  content :: string
  ctimestamp :: int

record spamViolation =
  stimestamp :: int
  indicators :: "string list"
  sseverity :: rat

record cache =
  rl_requests :: "string \<Rightarrow> (int list \<times> int) option"
  rl_violations :: "string \<Rightarrow> (violation list \<times> int) option"
  rl_tempbans :: "string \<Rightarrow> (banData \<times> int) option"
  spam_freq :: "string \<Rightarrow> (freqEntry list \<times> int) option"
  spam_content :: "string \<Rightarrow> (contentEntry list \<times> int) option"
  spam_violations :: "string \<Rightarrow> (spamViolation list \<times> int) option"
  faults :: "bool list"
  cacheTTL :: int

definition take_fault :: "cache \<Rightarrow> bool \<times> cache" where
  "take_fault c = (case faults c of [] \<Rightarrow> (False, c) | f # fs \<Rightarrow> (f, c\<lparr>faults := fs\<rparr>))"

text \<open>An entry is visible until its expiry instant has passed.\<close>

definition live :: "('v \<times> int) option \<Rightarrow> int \<Rightarrow> 'v option" where
  "live e now = (case e of None \<Rightarrow> None | Some (v, t) \<Rightarrow> if t < now then None else Some v)"

definition cache_get ::
  "(cache \<Rightarrow> string \<Rightarrow> ('v \<times> int) option) \<Rightarrow> string \<Rightarrow> int \<Rightarrow> cache \<Rightarrow> (error + 'v option) \<times> cache" where
  "cache_get family key now c =
     (case take_fault c of
        (True, c1) \<Rightarrow> (Inl CacheError, c1)
      | (False, c1) \<Rightarrow> (Inr (live (family c1 key) now), c1))"

text \<open>\<open>set(key, value, ttl)\<close>: \<open>ttl || config.performance.cacheTTL\<close>, and the store's
  standard 3600 s when both are absent; the entry expires \<open>ttl\<close> seconds from now.\<close>

definition effective_ttl :: "cache \<Rightarrow> int \<Rightarrow> int" where
  "effective_ttl c ttl = (if ttl \<noteq> 0 then ttl else if cacheTTL c \<noteq> 0 then cacheTTL c else 3600)"

definition cache_set ::
  "(((string \<Rightarrow> ('v \<times> int) option) \<Rightarrow> (string \<Rightarrow> ('v \<times> int) option)) \<Rightarrow> cache \<Rightarrow> cache)
     \<Rightarrow> string \<Rightarrow> 'v \<Rightarrow> int \<Rightarrow> int \<Rightarrow> cache \<Rightarrow> (error + unit) \<times> cache" where
  "cache_set family_update key v ttl now c =
     (case take_fault c of
        (True, c1) \<Rightarrow> (Inl CacheError, c1)
      | (False, c1) \<Rightarrow>
          (Inr (), family_update (\<lambda>m. m(key \<mapsto> (v, now + effective_ttl c1 ttl * 1000))) c1))"

text \<open>\<open>Math.ceil(x / 1000)\<close> on an integer number of milliseconds.\<close>

definition ceil_div1000 :: "int \<Rightarrow> int" where
  "ceil_div1000 x = (x + 999) div 1000"

section \<open>Rate limiter (src/utils/rateLimiter.js)\<close>

record limit =
  max_l :: int
  window :: int

record rl_result =
  allowed :: bool
  remaining :: int
  resetTime :: "int option"
  retryAfter :: "int option"

definition defaultLimits :: "string \<Rightarrow> limit option" where
  "defaultLimits t =
     (if t = ''messages'' then Some \<lparr>max_l = 20, window = 60000\<rparr>
      else if t = ''commands'' then Some \<lparr>max_l = 10, window = 60000\<rparr>
      else if t = ''media'' then Some \<lparr>max_l = 5, window = 300000\<rparr>
      else if t = ''api'' then Some \<lparr>max_l = 100, window = 3600000\<rparr>
      else None)"

text \<open>\<open>customLimit || this.defaultLimits[type] || this.defaultLimits.messages\<close>\<close>

definition resolve_limit :: "string \<Rightarrow> limit option \<Rightarrow> limit" where
  "resolve_limit t customLimit =
     (case customLimit of
        Some l \<Rightarrow> l
      | None \<Rightarrow> (case defaultLimits t of Some l \<Rightarrow> l | None \<Rightarrow> \<lparr>max_l = 20, window = 60000\<rparr>))"

definition ratelimit_key :: "string \<Rightarrow> string \<Rightarrow> string" where
  "ratelimit_key t userId = ''ratelimit_'' @ t @ ''_'' @ userId"

definition violations_key :: "string \<Rightarrow> string" where
  "violations_key userId = ''violations_'' @ userId"

definition tempban_key :: "string \<Rightarrow> string" where
  "tempban_key userId = ''tempban_'' @ userId"

definition temporaryBan :: "string \<Rightarrow> int \<Rightarrow> int \<Rightarrow> cache \<Rightarrow> (error + unit) \<times> cache" where
  "temporaryBan userId dur now c =
     cache_set rl_tempbans_update (tempban_key userId)
       \<lparr>banUserId = userId, bannedAt = now, duration = dur, reason = ''Rate limit violations''\<rparr>
       (ceil_div1000 dur) now c"

definition recordViolation :: "string \<Rightarrow> string \<Rightarrow> int \<Rightarrow> cache \<Rightarrow> (error + unit) \<times> cache" where
  "recordViolation userId t now c =
     (case cache_get rl_violations (violations_key userId) now c of
        (Inl e, c1) \<Rightarrow> (Inl e, c1)
      | (Inr v, c1) \<Rightarrow>
          (let violations = (case v of None \<Rightarrow> [] | Some vs \<Rightarrow> vs) @ [\<lparr>vtype = t, vtimestamp = now\<rparr>]
           in case cache_set rl_violations_update (violations_key userId) violations 3600 now c1 of
                (Inl e, c2) \<Rightarrow> (Inl e, c2)
              | (Inr _, c2) \<Rightarrow>
                  if 5 \<le> length violations then temporaryBan userId 3600000 now c2
                  else (Inr (), c2)))"

text \<open>The body of the \<open>try\<close> block of \<open>checkLimit\<close>. \<open>validRequests[0]\<close> of an empty
  list is \<open>undefined\<close> and the reset time computed from it is not a number: \<open>None\<close>.\<close>

definition checkLimit_try ::
  "string \<Rightarrow> string \<Rightarrow> limit option \<Rightarrow> int \<Rightarrow> cache \<Rightarrow> (error + rl_result) \<times> cache" where
  "checkLimit_try userId t customLimit now c =
     (let lim = resolve_limit t customLimit;
          key = ratelimit_key t userId
      in case cache_get rl_requests key now c of
           (Inl e, c1) \<Rightarrow> (Inl e, c1)
         | (Inr v, c1) \<Rightarrow>
             (let requests = (case v of None \<Rightarrow> [] | Some ts \<Rightarrow> ts);
                  validRequests = filter (\<lambda>timestamp. now - timestamp < window lim) requests
              in if max_l lim \<le> int (length validRequests) then
                   (case recordViolation userId t now c1 of
                      (Inl e, c2) \<Rightarrow> (Inl e, c2)
                    | (Inr _, c2) \<Rightarrow>
                        (let rt = (case validRequests of [] \<Rightarrow> None
                                   | t0 # _ \<Rightarrow> Some (t0 + window lim - now))
                         in (Inr \<lparr>allowed = False, remaining = 0, resetTime = rt,
                                  retryAfter = map_option ceil_div1000 rt\<rparr>, c2)))
                 else
                   (let pushed = validRequests @ [now]
                    in case cache_set rl_requests_update key pushed
                              (ceil_div1000 (window lim)) now c1 of
                         (Inl e, c2) \<Rightarrow> (Inl e, c2)
                       | (Inr _, c2) \<Rightarrow>
                           (Inr \<lparr>allowed = True,
                                 remaining = max_l lim - int (length pushed),
                                 resetTime = Some (hd pushed + window lim - now),
                                 retryAfter = Some 0\<rparr>, c2))))"

text \<open>\<open>checkLimit\<close>: the \<open>catch\<close> turns every error of the body into the fail-open
  result.\<close>

definition checkLimit ::
  "string \<Rightarrow> string \<Rightarrow> limit option \<Rightarrow> int \<Rightarrow> cache \<Rightarrow> rl_result \<times> cache" where
  "checkLimit userId t customLimit now c =
     (case checkLimit_try userId t customLimit now c of
        (Inl e, c1) \<Rightarrow>
          (\<lparr>allowed = True, remaining = 0, resetTime = Some 0, retryAfter = Some 0\<rparr>, c1)
      | (Inr r, c1) \<Rightarrow> (r, c1))"

text \<open>A sequence of calls of one subject in one category, at the given instants.\<close>

fun checkLimits ::
  "string \<Rightarrow> string \<Rightarrow> limit option \<Rightarrow> int list \<Rightarrow> cache \<Rightarrow> rl_result list \<times> cache" where
  "checkLimits userId t customLimit [] c = ([], c)"
| "checkLimits userId t customLimit (now # nows) c =
     (case checkLimit userId t customLimit now c of
        (r, c1) \<Rightarrow>
          (case checkLimits userId t customLimit nows c1 of (rs, c2) \<Rightarrow> (r # rs, c2)))"

definition empty_cache :: cache where
  "empty_cache =
     \<lparr>rl_requests = Map.empty, rl_violations = Map.empty, rl_tempbans = Map.empty,
      spam_freq = Map.empty, spam_content = Map.empty, spam_violations = Map.empty,
      faults = [], cacheTTL = 3600\<rparr>"

text \<open>The requests of a subject in a category that \<open>checkLimit\<close> counts at instant
  \<open>now\<close>, and the violations that \<open>recordViolation\<close> finds.\<close>

definition valid_at :: "cache \<Rightarrow> string \<Rightarrow> string \<Rightarrow> limit option \<Rightarrow> int \<Rightarrow> int list" where
  "valid_at c u t cl now =
     filter (\<lambda>x. now - x < window (resolve_limit t cl))
       (case live (rl_requests c (ratelimit_key t u)) now of None \<Rightarrow> [] | Some ts \<Rightarrow> ts)"

definition prior_violations :: "cache \<Rightarrow> string \<Rightarrow> int \<Rightarrow> violation list" where
  "prior_violations c u now =
     (case live (rl_violations c (violations_key u)) now of None \<Rightarrow> [] | Some vs \<Rightarrow> vs)"

section \<open>Anti-spam engine (src/utils/antiSpam.js)\<close>

text \<open>
  Numbers are exact rationals. Regular expressions and the string methods of the runtime
  are taken as a parameter: \<open>rx_match r t\<close> is \<open>t.match(r) || []\<close> for a global
  expression, \<open>rx_test r t\<close> is \<open>r.test(t)\<close> on a fresh expression, and \<open>str_normalize\<close>
  is \<open>toLowerCase().replace(/\s+/g, ' ').trim()\<close>.
\<close>

datatype regex = RepeatedChars | Urls | Mentions | UpperCase | Letter | Suspicious nat

record runtime =
  rx_match :: "regex \<Rightarrow> string \<Rightarrow> string list"
  rx_test :: "regex \<Rightarrow> string \<Rightarrow> bool"
  str_normalize :: "string \<Rightarrow> string"

record settings =
  maxMessages :: nat
  timeWindow :: int
  maxSimilarity :: rat
  maxCapsPercent :: rat
  maxMentions :: nat
  maxUrls :: nat
  warningThreshold :: nat
  banThreshold :: nat

definition default_settings :: settings where
  "default_settings =
     \<lparr>maxMessages = 5, timeWindow = 10000, maxSimilarity = 8 / 10, maxCapsPercent = 7 / 10,
      maxMentions = 5, maxUrls = 3, warningThreshold = 3, banThreshold = 5\<rparr>"

record antiSpam =
  whitelistedUsers :: "string list"
  spam_settings :: settings
  checkAdmins :: bool

text \<open>The context argument; a missing field is \<open>undefined\<close>, which is falsy.\<close>

record spam_context =
  ctx_isGroup :: bool
  ctx_isGroupAdmin :: bool
  text_of :: "string option"

definition empty_context :: spam_context where
  "empty_context = \<lparr>ctx_isGroup = False, ctx_isGroupAdmin = False, text_of = None\<rparr>"

text \<open>The outcome of one heuristic: \<open>{isSpam: false}\<close> or
  \<open>{isSpam: true, reason, severity}\<close>.\<close>

datatype spam_check = Clean | Indicator string rat

fun check_isSpam :: "spam_check \<Rightarrow> bool" where
  "check_isSpam Clean = False"
| "check_isSpam (Indicator _ _) = True"

fun check_reason :: "spam_check \<Rightarrow> string" where
  "check_reason Clean = []"
| "check_reason (Indicator r _) = r"

text \<open>\<open>indicator.severity || 1\<close>\<close>

fun check_severity :: "spam_check \<Rightarrow> rat" where
  "check_severity Clean = 1"
| "check_severity (Indicator _ sev) = (if sev = 0 then 1 else sev)"

text \<open>
  A value as the caller of an \<open>async\<close> function sees it: a string, or the promise that
  such a function returns at once, here with the outcome it settles to. \<open>===\<close> between a
  promise and a string is false.
\<close>

datatype js_value = Str string | PromiseOf "error + string"

fun strict_equals :: "js_value \<Rightarrow> js_value \<Rightarrow> bool" where
  "strict_equals (Str a) (Str b) = (a = b)"
| "strict_equals _ _ = False"

datatype spam_result =
    NotSpam "string option"
  | Spam rat "string list" js_value rat
  | SpamError error

fun isSpam_result :: "spam_result \<Rightarrow> bool" where
  "isSpam_result (Spam _ _ _ _) = True"
| "isSpam_result _ = False"

fun action_of :: "spam_result \<Rightarrow> js_value option" where
  "action_of (Spam _ _ a _) = Some a"
| "action_of _ = None"

fun waitTime_of :: "spam_result \<Rightarrow> rat option" where
  "waitTime_of (Spam _ _ _ w) = Some w"
| "waitTime_of _ = None"

definition spam_freq_key :: "string \<Rightarrow> string" where
  "spam_freq_key userId = ''spam_freq_'' @ userId"

definition spam_content_key :: "string \<Rightarrow> string" where
  "spam_content_key userId = ''spam_content_'' @ userId"

definition spam_violations_key :: "string \<Rightarrow> string" where
  "spam_violations_key userId = ''spam_violations_'' @ userId"

definition checkMessageFrequency ::
  "settings \<Rightarrow> string \<Rightarrow> string option \<Rightarrow> int \<Rightarrow> cache \<Rightarrow> (error + spam_check) \<times> cache" where
  "checkMessageFrequency st userId msgId now c =
     (case cache_get spam_freq (spam_freq_key userId) now c of
        (Inl e, c1) \<Rightarrow> (Inl e, c1)
      | (Inr v, c1) \<Rightarrow>
          (let messages = (case v of None \<Rightarrow> [] | Some ms \<Rightarrow> ms);
               recentMessages =
                 filter (\<lambda>msg. now - ftimestamp msg < timeWindow st) messages
                   @ [\<lparr>ftimestamp = now, messageId = msgId\<rparr>]
           in case cache_set spam_freq_update (spam_freq_key userId) recentMessages 60 now c1 of
                (Inl e, c2) \<Rightarrow> (Inl e, c2)
              | (Inr _, c2) \<Rightarrow>
                  if maxMessages st < length recentMessages then
                    (Inr (Indicator ''message_frequency''
                       (min (of_nat (length recentMessages) / of_nat (maxMessages st)) 3)), c2)
                  else (Inr Clean, c2)))"

text \<open>\<open>levenshteinDistance(str1, str2)\<close>: the matrix has one row for each prefix of
  \<open>str2\<close> and one column for each prefix of \<open>str1\<close>; the rows are computed in turn.\<close>

fun lev_row :: "char \<Rightarrow> string \<Rightarrow> nat list \<Rightarrow> nat \<Rightarrow> nat list" where
  "lev_row ch [] prev left = []"
| "lev_row ch (x # xs) prev left =
     (let diag = hd prev; up = hd (tl prev);
          cell = (if ch = x then diag else min (diag + 1) (min (left + 1) (up + 1)))
      in cell # lev_row ch xs (tl prev) cell)"

fun lev_rows :: "string \<Rightarrow> string \<Rightarrow> nat list \<Rightarrow> nat \<Rightarrow> nat list" where
  "lev_rows str1 [] prev i = prev"
| "lev_rows str1 (ch # rest) prev i = lev_rows str1 rest (Suc i # lev_row ch str1 prev (Suc i)) (Suc i)"

definition levenshteinDistance :: "string \<Rightarrow> string \<Rightarrow> nat" where
  "levenshteinDistance str1 str2 = last (lev_rows str1 str2 [0 ..< Suc (length str1)] 0)"

definition calculateSimilarity :: "runtime \<Rightarrow> string \<Rightarrow> string \<Rightarrow> rat" where
  "calculateSimilarity rt text1 text2 =
     (if text1 = [] \<or> text2 = [] then 0
      else (let norm1 = str_normalize rt text1; norm2 = str_normalize rt text2
            in if norm1 = norm2 then 1
               else (let longer = (if length norm2 < length norm1 then norm1 else norm2);
                         shorter = (if length norm2 < length norm1 then norm2 else norm1)
                     in if length longer = 0 then 1
                        else (of_nat (length longer) - of_nat (levenshteinDistance longer shorter))
                               / of_nat (length longer))))"

text \<open>The loop over the recent messages of \<open>checkRepeatedContent\<close>: the first one that
  is too similar ends the check.\<close>

fun first_similar :: "runtime \<Rightarrow> settings \<Rightarrow> string \<Rightarrow> contentEntry list \<Rightarrow> rat option" where
  "first_similar rt st t [] = None"
| "first_similar rt st t (prevMsg # rest) =
     (let similarity = calculateSimilarity rt t (content prevMsg)
      in if maxSimilarity st < similarity then Some similarity else first_similar rt st t rest)"

definition checkRepeatedContent ::
  "runtime \<Rightarrow> settings \<Rightarrow> string \<Rightarrow> string option \<Rightarrow> int \<Rightarrow> cache \<Rightarrow> (error + spam_check) \<times> cache" where
  "checkRepeatedContent rt st userId txt now c =
     (case txt of
        None \<Rightarrow> (Inr Clean, c)
      | Some t \<Rightarrow>
          if length t < 10 then (Inr Clean, c)
          else
            (case cache_get spam_content (spam_content_key userId) now c of
               (Inl e, c1) \<Rightarrow> (Inl e, c1)
             | (Inr v, c1) \<Rightarrow>
                 (let previousMessages = (case v of None \<Rightarrow> [] | Some ms \<Rightarrow> ms);
                      recentMessages = filter (\<lambda>msg. now - ctimestamp msg < 300000) previousMessages
                  in case first_similar rt st t recentMessages of
                       Some similarity \<Rightarrow> (Inr (Indicator ''repeated_content'' similarity), c1)
                     | None \<Rightarrow>
                         (let pushed = recentMessages @ [\<lparr>content = t, ctimestamp = now\<rparr>];
                              kept = (if 20 < length pushed then drop (length pushed - 20) pushed
                                      else pushed)
                          in case cache_set spam_content_update (spam_content_key userId) kept 300 now c1 of
                               (Inl e, c2) \<Rightarrow> (Inl e, c2)
                             | (Inr _, c2) \<Rightarrow> (Inr Clean, c2)))))"

definition checkCapsLock :: "runtime \<Rightarrow> settings \<Rightarrow> string option \<Rightarrow> spam_check" where
  "checkCapsLock rt st txt =
     (case txt of
        None \<Rightarrow> Clean
      | Some t \<Rightarrow>
          if length t < 20 then Clean
          else (let capsCount = length (rx_match rt UpperCase t);
                    totalLetters = length (rx_match rt Letter t);
                    capsPercent = (if 0 < totalLetters then of_nat capsCount / of_nat totalLetters else 0)
                in if maxCapsPercent st < capsPercent \<and> 15 < capsCount
                   then Indicator ''excessive_caps'' capsPercent else Clean))"

definition checkRepeatedChars :: "runtime \<Rightarrow> string option \<Rightarrow> spam_check" where
  "checkRepeatedChars rt txt =
     (case txt of
        None \<Rightarrow> Clean
      | Some t \<Rightarrow>
          if t = [] then Clean
          else (case rx_match rt RepeatedChars t of
                  [] \<Rightarrow> Clean
                | m # ms \<Rightarrow>
                    Indicator ''repeated_characters''
                      (min (of_nat (Max (set (map length (m # ms)))) / 20) 3)))"

definition checkExcessiveMentions :: "runtime \<Rightarrow> settings \<Rightarrow> string option \<Rightarrow> spam_check" where
  "checkExcessiveMentions rt st txt =
     (case txt of
        None \<Rightarrow> Clean
      | Some t \<Rightarrow>
          if t = [] then Clean
          else (let mentions = length (rx_match rt Mentions t)
                in if maxMentions st < mentions
                   then Indicator ''excessive_mentions'' (of_nat mentions / of_nat (maxMentions st))
                   else Clean))"

definition checkExcessiveUrls :: "runtime \<Rightarrow> settings \<Rightarrow> string option \<Rightarrow> spam_check" where
  "checkExcessiveUrls rt st txt =
     (case txt of
        None \<Rightarrow> Clean
      | Some t \<Rightarrow>
          if t = [] then Clean
          else (let urls = length (rx_match rt Urls t)
                in if maxUrls st < urls
                   then Indicator ''excessive_urls'' (of_nat urls / of_nat (maxUrls st))
                   else Clean))"

definition checkSuspiciousPatterns :: "runtime \<Rightarrow> string option \<Rightarrow> spam_check" where
  "checkSuspiciousPatterns rt txt =
     (case txt of
        None \<Rightarrow> Clean
      | Some t \<Rightarrow>
          if t = [] then Clean
          else if list_ex (\<lambda>k. rx_test rt (Suspicious k) t) [0, 1, 2, 3]
          then Indicator ''suspicious_pattern'' (3 / 2) else Clean)"

definition calculateSeverity :: "spam_check list \<Rightarrow> rat" where
  "calculateSeverity inds = min (sum_list (map check_severity inds)) 5"

definition spam_recordViolation ::
  "string \<Rightarrow> spam_check list \<Rightarrow> rat \<Rightarrow> int \<Rightarrow> cache \<Rightarrow> (error + unit) \<times> cache" where
  "spam_recordViolation userId inds sev now c =
     (case cache_get spam_violations (spam_violations_key userId) now c of
        (Inl e, c1) \<Rightarrow> (Inl e, c1)
      | (Inr v, c1) \<Rightarrow>
          (let violations = (case v of None \<Rightarrow> [] | Some vs \<Rightarrow> vs)
                 @ [\<lparr>stimestamp = now, indicators = map check_reason inds, sseverity = sev\<rparr>];
               recentViolations = filter (\<lambda>v. now - stimestamp v < 3600000) violations
           in cache_set spam_violations_update (spam_violations_key userId) recentViolations 3600 now c1))"

text \<open>\<open>determineAction\<close> is an \<open>async\<close> function: this is the outcome its promise
  settles to. The average over no violations is not a number, and no comparison with it
  holds; division by zero gives 0 here, with the same comparisons.\<close>

definition determineAction ::
  "settings \<Rightarrow> string \<Rightarrow> rat \<Rightarrow> int \<Rightarrow> cache \<Rightarrow> (error + string) \<times> cache" where
  "determineAction st userId sev now c =
     (case cache_get spam_violations (spam_violations_key userId) now c of
        (Inl e, c1) \<Rightarrow> (Inl e, c1)
      | (Inr v, c1) \<Rightarrow>
          (let violations = (case v of None \<Rightarrow> [] | Some vs \<Rightarrow> vs);
               recentViolations = filter (\<lambda>v. now - stimestamp v < 3600000) violations;
               violationCount = length recentViolations;
               avgSeverity = sum_list (map sseverity recentViolations) / of_nat violationCount
           in if banThreshold st \<le> violationCount \<or> 3 < avgSeverity then (Inr ''ban'', c1)
              else if warningThreshold st \<le> violationCount \<or> 2 < sev then (Inr ''warn'', c1)
              else (Inr ''throttle'', c1)))"

definition calculateWaitTime :: "rat \<Rightarrow> rat" where
  "calculateWaitTime sev = min (sev * 5000) 30000"

text \<open>
  The body of the \<open>try\<close> block of \<open>checkSpam\<close>. The heuristics are started together and
  awaited with \<open>Promise.all\<close>: each runs to its end, and the block throws when one of
  them has thrown. The two that use the cache touch different key families and are run one
  after the other here. \<open>recordViolation\<close> is awaited. \<open>determineAction\<close> is called and
  \<^emph>\<open>not\<close> awaited: \<open>action\<close> is the promise, whatever it settles to, and the comparison
  \<open>action === 'throttle'\<close> is between that promise and a string.
\<close>

definition checkSpam_try ::
  "runtime \<Rightarrow> antiSpam \<Rightarrow> string \<Rightarrow> string option \<Rightarrow> spam_context \<Rightarrow> int \<Rightarrow> cache
     \<Rightarrow> (error + spam_result) \<times> cache" where
  "checkSpam_try rt a userId msgId ctx now c =
     (if userId \<in> set (whitelistedUsers a) then (Inr (NotSpam (Some ''whitelisted'')), c)
      else if ctx_isGroup ctx \<and> ctx_isGroupAdmin ctx \<and> \<not> checkAdmins a
      then (Inr (NotSpam (Some ''admin_exempt'')), c)
      else
        (let st = spam_settings a; txt = text_of ctx
         in case checkMessageFrequency st userId msgId now c of (f, c1) \<Rightarrow>
            (case checkRepeatedContent rt st userId txt now c1 of (r, c2) \<Rightarrow>
               (case (f, r) of
                  (Inl e, _) \<Rightarrow> (Inl e, c2)
                | (Inr _, Inl e) \<Rightarrow> (Inl e, c2)
                | (Inr fc, Inr rc) \<Rightarrow>
                    (let checks = [fc, rc, checkCapsLock rt st txt, checkRepeatedChars rt txt,
                                   checkExcessiveMentions rt st txt, checkExcessiveUrls rt st txt,
                                   checkSuspiciousPatterns rt txt];
                         spamIndicators = filter check_isSpam checks
                     in if length spamIndicators = 0 then (Inr (NotSpam None), c2)
                        else
                          (let sev = calculateSeverity spamIndicators
                           in case spam_recordViolation userId spamIndicators sev now c2 of
                                (Inl e, c3) \<Rightarrow> (Inl e, c3)
                              | (Inr _, c3) \<Rightarrow>
                                  (case determineAction st userId sev now c3 of (settled, c4) \<Rightarrow>
                                     (let action = PromiseOf settled
                                      in (Inr (Spam sev (map check_reason spamIndicators) action
                                                 (if strict_equals action (Str ''throttle'')
                                                  then calculateWaitTime sev else 0)),
                                          c4)))))))))"

definition checkSpam ::
  "runtime \<Rightarrow> antiSpam \<Rightarrow> string \<Rightarrow> string option \<Rightarrow> spam_context \<Rightarrow> int \<Rightarrow> cache
     \<Rightarrow> spam_result \<times> cache" where
  "checkSpam rt a userId msgId ctx now c =
     (case checkSpam_try rt a userId msgId ctx now c of
        (Inl e, c1) \<Rightarrow> (SpamError e, c1)
      | (Inr r, c1) \<Rightarrow> (r, c1))"

definition new_antiSpam :: antiSpam where
  "new_antiSpam = \<lparr>whitelistedUsers = [], spam_settings = default_settings, checkAdmins = False\<rparr>"

text \<open>A runtime whose expressions never match; no check made without a text consults
  it.\<close>

definition no_match :: runtime where
  "no_match = \<lparr>rx_match = (\<lambda>_ _. []), rx_test = (\<lambda>_ _. False), str_normalize = (\<lambda>t. t)\<rparr>"

text \<open>A sequence of checks of one subject, at the given instants, each called as the
  dispatcher calls it: with the context left out.\<close>

fun checkSpams ::
  "runtime \<Rightarrow> antiSpam \<Rightarrow> string \<Rightarrow> int list \<Rightarrow> cache \<Rightarrow> spam_result list \<times> cache" where
  "checkSpams rt a userId [] c = ([], c)"
| "checkSpams rt a userId (now # nows) c =
     (case checkSpam rt a userId None empty_context now c of
        (r, c1) \<Rightarrow> (case checkSpams rt a userId nows c1 of (rs, c2) \<Rightarrow> (r # rs, c2)))"

section \<open>Command dispatcher (src/handlers/commandHandler.js)\<close>

text \<open>
  The collaborators of the dispatcher (the command registry, the storage of users and
  groups, the group metadata of the socket, the configuration) are read-only inputs,
  gathered in \<open>env\<close>; of them only a command handler is taken to throw. What the
  dispatcher sends or calls is logged in order as \<open>effects\<close>.
\<close>

record command =
  cmd_name :: string
  category :: string
  permissions :: "string list option"
  cooldown :: int
  args_off :: bool
  minArgs :: nat
  maxArgs :: nat
  typing_off :: bool

record user =
  jid :: string
  isBanned :: bool
  isPremium :: bool

record group_rec =
  groupBanned :: bool

datatype js_field = Undefined | Null | Val string

record participant =
  pid :: string
  admin :: js_field

record env =
  getCommand :: "string \<Rightarrow> command option"
  getUser :: "string \<Rightarrow> user option"
  getGroup :: "string \<Rightarrow> group_rec option"
  groupMetadata :: "string \<Rightarrow> participant list"
  ownerNumbers :: "string list"
  botUserId :: string
  execute_throws :: "string \<Rightarrow> bool"
  js_runtime :: runtime

record wa_message =
  remoteJid :: string
  participant_of :: "string option"
  key_id :: "string option"

datatype effect =
    SendMessage string string
  | PresenceUpdate string string
  | Execute string
  | LogCommand string string
  | UpdateUser string
  | UpdateGroup string
  | CacheLastCommand string string

record bot =
  cooldowns :: "string \<Rightarrow> int option"
  commandStats :: "string \<Rightarrow> (nat \<times> nat) option"
  bot_cache :: cache
  bot_antiSpam :: antiSpam

definition ends_with :: "string \<Rightarrow> string \<Rightarrow> bool" where
  "ends_with s suf = (length suf \<le> length s \<and> drop (length s - length suf) s = suf)"

text \<open>The loop of \<open>checkPermissions\<close> over the declared tags: the first tag that the
  subject satisfies ends it with \<open>true\<close>; an unknown tag is passed over.\<close>

definition permission_case :: "env \<Rightarrow> user \<Rightarrow> bool \<Rightarrow> bool \<Rightarrow> bool \<Rightarrow> string \<Rightarrow> bool" where
  "permission_case e u in_group isGroupAdmin isBotAdmin permission =
     (if permission = ''owner'' then jid u \<in> set (ownerNumbers e)
      else if permission = ''admin'' then jid u \<in> set (ownerNumbers e) \<or> isGroupAdmin
      else if permission = ''premium'' then isPremium u \<or> jid u \<in> set (ownerNumbers e)
      else if permission = ''group'' then in_group
      else if permission = ''private'' then \<not> in_group
      else if permission = ''botAdmin'' then isBotAdmin
      else False)"

fun permissions_loop :: "env \<Rightarrow> user \<Rightarrow> bool \<Rightarrow> bool \<Rightarrow> bool \<Rightarrow> string list \<Rightarrow> bool" where
  "permissions_loop e u in_group isGroupAdmin isBotAdmin [] = False"
| "permissions_loop e u in_group isGroupAdmin isBotAdmin (permission # rest) =
     (if permission_case e u in_group isGroupAdmin isBotAdmin permission then True
      else permissions_loop e u in_group isGroupAdmin isBotAdmin rest)"

definition checkPermissions ::
  "env \<Rightarrow> command \<Rightarrow> user \<Rightarrow> group_rec option \<Rightarrow> bool \<Rightarrow> bool \<Rightarrow> bool" where
  "checkPermissions e cmd u grp isGroupAdmin isBotAdmin =
     (case permissions cmd of
        None \<Rightarrow> True
      | Some ps \<Rightarrow>
          if length ps = 0 then True
          else permissions_loop e u (grp \<noteq> None) isGroupAdmin isBotAdmin ps)"



text \<open>\<open>checkCooldown\<close>: \<open>None\<close> is \<open>true\<close>, \<open>Some timeLeft\<close> is
  \<open>{success: false, timeLeft}\<close>. A cooldown of 0 and a last use at instant 0 are falsy.\<close>

definition checkCooldown :: "env \<Rightarrow> string \<Rightarrow> string \<Rightarrow> int \<Rightarrow> bot \<Rightarrow> int option \<times> bot" where
  "checkCooldown e commandName userId now b =
     (case getCommand e commandName of
        None \<Rightarrow> (None, b)
      | Some cmd \<Rightarrow>
          if cooldown cmd = 0 then (None, b)
          else
            (let cooldownKey = commandName @ ''_'' @ userId;
                 stamp = b\<lparr>cooldowns := (cooldowns b)(cooldownKey \<mapsto> now)\<rparr>
             in case cooldowns b cooldownKey of
                  None \<Rightarrow> (None, stamp)
                | Some lastUsed \<Rightarrow>
                    if lastUsed = 0 then (None, stamp)
                    else (let timePassed = now - lastUsed; cooldownTime = cooldown cmd * 1000
                          in if timePassed < cooldownTime
                             then (Some (ceil_div1000 (cooldownTime - timePassed)), b)
                             else (None, stamp))))"

text \<open>\<open>validateArguments\<close>: the message it sends, if any.\<close>

definition validateArguments :: "command \<Rightarrow> string list \<Rightarrow> string option" where
  "validateArguments cmd args =
     (if args_off cmd then None
      else if minArgs cmd \<noteq> 0 \<and> length args < minArgs cmd then Some ''Insufficient arguments''
      else if maxArgs cmd \<noteq> 0 \<and> maxArgs cmd < length args then Some ''Too many arguments''
      else None)"

definition is_admin_of :: "participant list \<Rightarrow> string \<Rightarrow> bool" where
  "is_admin_of ps who =
     (case find (\<lambda>p. pid p = who) ps of None \<Rightarrow> False | Some p \<Rightarrow> admin p \<noteq> Undefined)"

text \<open>What \<open>handleCommand\<close> derives from the message before the gates:
  \<open>message.key.participant || from\<close>, \<open>from.endsWith('@g.us')\<close>, the group record and
  the two admin flags.\<close>

definition sender_of :: "wa_message \<Rightarrow> string" where
  "sender_of message =
     (case participant_of message of
        None \<Rightarrow> remoteJid message
      | Some p \<Rightarrow> if p = [] then remoteJid message else p)"

definition in_group_chat :: "wa_message \<Rightarrow> bool" where
  "in_group_chat message = ends_with (remoteJid message) ''@g.us''"

definition group_of :: "env \<Rightarrow> wa_message \<Rightarrow> group_rec option" where
  "group_of e message = (if in_group_chat message then getGroup e (remoteJid message) else None)"

definition sender_isGroupAdmin :: "env \<Rightarrow> wa_message \<Rightarrow> bool" where
  "sender_isGroupAdmin e message =
     (if in_group_chat message
      then is_admin_of (groupMetadata e (remoteJid message)) (sender_of message) else False)"

definition bot_isAdmin :: "env \<Rightarrow> wa_message \<Rightarrow> bool" where
  "bot_isAdmin e message =
     (if in_group_chat message
      then is_admin_of (groupMetadata e (remoteJid message)) (botUserId e) else False)"

text \<open>
  \<open>handleCommand\<close>: the result (\<open>false\<close> when the command or the user is unknown), the
  effects in order, and the new state. The \<open>finally\<close> clause adds the \<open>paused\<close> presence
  to every path. Gate 5 passes the \<^emph>\<open>command name\<close> to the rate limiter as its category.
\<close>

definition gates ::
  "env \<Rightarrow> wa_message \<Rightarrow> string \<Rightarrow> string list \<Rightarrow> int \<Rightarrow> bot \<Rightarrow> bool \<times> effect list \<times> bot" where
  "gates e message commandName args now b =
     (case getCommand e commandName of
        None \<Rightarrow> (False, [], b)
      | Some cmd \<Rightarrow>
          (let from = remoteJid message;
               sender = sender_of message;
               inGroup = in_group_chat message;
               grp = group_of e message
           in case getUser e sender of
                None \<Rightarrow> (False, [], b)
              | Some u \<Rightarrow>
                  if isBanned u then (True, [SendMessage from ''You are banned''], b)
                  else if inGroup \<and> (case grp of None \<Rightarrow> False | Some g \<Rightarrow> groupBanned g)
                  then (True, [SendMessage from ''This group is banned''], b)
                  else
                    (let isGroupAdmin = sender_isGroupAdmin e message;
                         isBotAdmin = bot_isAdmin e message
                     in if \<not> checkPermissions e cmd u grp isGroupAdmin isBotAdmin
                        then (True, [SendMessage from ''Access Denied''], b)
                        else if inGroup \<and> category cmd = ''owner'' \<and> sender \<notin> set (ownerNumbers e)
                        then (True, [SendMessage from ''Owner Command''], b)
                        else
                          (case checkCooldown e commandName sender now b of
                             (Some timeLeft, b1) \<Rightarrow> (True, [SendMessage from ''Cooldown Active''], b1)
                           | (None, b1) \<Rightarrow>
                               (case checkLimit sender commandName None now (bot_cache b1) of
                                  (rateLimitCheck, c1) \<Rightarrow>
                                    if \<not> allowed rateLimitCheck
                                    then (True, [SendMessage from ''Rate Limited''], b1\<lparr>bot_cache := c1\<rparr>)
                                    else
                                      (case checkSpam (js_runtime e) (bot_antiSpam b1) sender (key_id message)
                                              empty_context now c1 of
                                         (spamCheck, c2) \<Rightarrow>
                                           (let b2 = b1\<lparr>bot_cache := c2\<rparr>
                                            in if isSpam_result spamCheck
                                               then (True, [SendMessage from ''Anti-Spam Protection''], b2)
                                               else
                                                 (case validateArguments cmd args of
                                                    Some complaint \<Rightarrow> (True, [SendMessage from complaint], b2)
                                                  | None \<Rightarrow>
                                                      (let composing = (if typing_off cmd then []
                                                                        else [PresenceUpdate ''composing'' from])
                                                       in if execute_throws e (cmd_name cmd)
                                                          then (True,
                                                                composing @ [Execute (cmd_name cmd),
                                                                  SendMessage (remoteJid message) ''Command Error''],
                                                                b2\<lparr>commandStats :=
                                                                  (case commandStats b2 commandName of
                                                                     None \<Rightarrow> commandStats b2
                                                                   | Some (used, errors) \<Rightarrow>
                                                                       (commandStats b2)(commandName \<mapsto> (used, Suc errors)))\<rparr>)
                                                          else
                                                            (case commandStats b2 (cmd_name cmd) of
                                                               None \<Rightarrow>
                                                                 (True,
                                                                  composing @ [Execute (cmd_name cmd),
                                                                    SendMessage (remoteJid message) ''Command Error''],
                                                                  b2\<lparr>commandStats :=
                                                                    (case commandStats b2 commandName of
                                                                       None \<Rightarrow> commandStats b2
                                                                     | Some (used, errors) \<Rightarrow>
                                                                         (commandStats b2)(commandName \<mapsto> (used, Suc errors)))\<rparr>)
                                                             | Some (used, errors) \<Rightarrow>
                                                                 (True,
                                                                  composing @ [Execute (cmd_name cmd),
                                                                    LogCommand sender commandName,
                                                                    UpdateUser sender]
                                                                    @ (if inGroup then [UpdateGroup from] else [])
                                                                    @ [CacheLastCommand sender commandName],
                                                                  b2\<lparr>commandStats :=
                                                                    (commandStats b2)(cmd_name cmd \<mapsto> (Suc used, errors))\<rparr>)))))))))))"

definition handleCommand ::
  "env \<Rightarrow> wa_message \<Rightarrow> string \<Rightarrow> string list \<Rightarrow> int \<Rightarrow> bot \<Rightarrow> bool \<times> effect list \<times> bot" where
  "handleCommand e message commandName args now b =
     (case gates e message commandName args now b of
        (handled, effects, b1) \<Rightarrow>
          (handled, effects @ [PresenceUpdate ''paused'' (remoteJid message)], b1))"

text \<open>A sequence of invocations of one command by one sender, and the scenario of the
  examples: a group with an admin and a plain member, a command \<open>ping\<close> without
  requirements and a command \<open>kick\<close> that requires \<open>[owner, admin]\<close>.\<close>

fun handleCommands ::
  "env \<Rightarrow> wa_message \<Rightarrow> string \<Rightarrow> int list \<Rightarrow> bot \<Rightarrow> effect list list \<times> bot" where
  "handleCommands e message commandName [] b = ([], b)"
| "handleCommands e message commandName (now # nows) b =
     (case handleCommand e message commandName [] now b of
        (_, effects, b1) \<Rightarrow>
          (case handleCommands e message commandName nows b1 of
             (rest, b2) \<Rightarrow> (effects # rest, b2)))"

definition ping_cmd :: command where
  "ping_cmd = \<lparr>cmd_name = ''ping'', category = ''general'', permissions = None, cooldown = 0,
     args_off = False, minArgs = 0, maxArgs = 0, typing_off = True\<rparr>"

definition kick_cmd :: command where
  "kick_cmd = \<lparr>cmd_name = ''kick'', category = ''admin'',
     permissions = Some [''owner'', ''admin''], cooldown = 0,
     args_off = False, minArgs = 0, maxArgs = 0, typing_off = True\<rparr>"

definition demo_env :: env where
  "demo_env =
     \<lparr>getCommand = (\<lambda>n. if n = ''ping'' then Some ping_cmd
                          else if n = ''kick'' then Some kick_cmd else None),
      getUser = (\<lambda>j. Some \<lparr>jid = j, isBanned = False, isPremium = False\<rparr>),
      getGroup = (\<lambda>g. Some \<lparr>groupBanned = False\<rparr>),
      groupMetadata = (\<lambda>g. [\<lparr>pid = ''admin@s'', admin = Val ''admin''\<rparr>,
                              \<lparr>pid = ''member@s'', admin = Undefined\<rparr>]),
      ownerNumbers = [''owner@s''],
      botUserId = ''bot@s'',
      execute_throws = (\<lambda>n. False),
      js_runtime = no_match\<rparr>"

definition new_bot :: bot where
  "new_bot = \<lparr>cooldowns = Map.empty,
     commandStats = [''ping'' \<mapsto> (0, 0), ''kick'' \<mapsto> (0, 0)],
     bot_cache = empty_cache, bot_antiSpam = new_antiSpam\<rparr>"



definition private_chat :: wa_message where
  "private_chat = \<lparr>remoteJid = ''member@s'', participant_of = None, key_id = None\<rparr>"

section \<open>Priority message queue (class MessageQueue)\<close>

text \<open>
  A queued message is a mutable object that the queue list, the drain loop and the
  completion handlers share: \<open>processMessage\<close> and \<open>handleFailure\<close> update the object
  they were handed, whether or not it is still in the list. The objects therefore live in
  a store \<open>objs\<close>, addressed by their position, and a queue is a list of addresses. The
  in-flight \<open>Set\<close> of a queue holds message ids; it is kept as a list without repetition,
  in insertion order. \<open>events\<close> is the log of the events emitted so far, and \<open>awaiting\<close>
  holds the executions that were handed to the \<open>message:execute\<close> listeners and whose
  callback has not come yet. \<open>persisted\<close> is the cache entry \<open>queue_<name>\<close> as a
  serialised copy of the list; an entry that has expired is one that was never written.
\<close>

record qmsg =
  mid :: string
  payload :: string
  priority :: int
  delay :: int
  maxRetries :: int
  attempts :: nat
  createdAt :: int
  scheduledFor :: int

record options =
  opt_priority :: "int option"
  opt_delay :: "int option"
  opt_maxRetries :: "int option"
  opt_id :: "string option"

datatype event =
    MessageQueued string string nat
  | MessageProcessing string string nat
  | MessageExecute string nat
  | MessageCompleted string string int nat
  | MessageRetry string string nat int int
  | MessageFailed string string nat
  | MessageRemoved string string
  | QueueCleared string nat
  | QueuePaused string
  | QueueResumed string

record mq =
  objs :: "qmsg list"
  queues :: "string \<Rightarrow> nat list option"
  processing :: "string \<Rightarrow> string list option"
  delays :: "string list"
  defaultMaxRetries :: int
  defaultDelay :: int
  maxConcurrent :: nat
  stat_queued :: nat
  stat_processed :: nat
  stat_failed :: nat
  stat_retried :: nat
  events :: "event list"
  awaiting :: "(string \<times> nat) list"
  persisted :: "string \<Rightarrow> qmsg list option"

definition new_queue :: mq where
  "new_queue =
     \<lparr>objs = [], queues = Map.empty, processing = Map.empty, delays = [],
      defaultMaxRetries = 3, defaultDelay = 1000, maxConcurrent = 5,
      stat_queued = 0, stat_processed = 0, stat_failed = 0, stat_retried = 0,
      events = [], awaiting = [], persisted = Map.empty\<rparr>"

definition set_add :: "'a \<Rightarrow> 'a list \<Rightarrow> 'a list" where
  "set_add x xs = (if x \<in> set xs then xs else xs @ [x])"

text \<open>The comparator of \<open>queue.sort\<close>: priority descending, then \<open>scheduledFor\<close>
  ascending. The sort is stable.\<close>

definition msg_key :: "qmsg \<Rightarrow> int \<times> int" where
  "msg_key m = (- priority m, scheduledFor m)"

definition sort_queue :: "qmsg list \<Rightarrow> nat list \<Rightarrow> nat list" where
  "sort_queue os queue = sort_key (\<lambda>r. msg_key (os ! r)) queue"

text \<open>\<open>findIndex(m => m.id === id)\<close> followed by \<open>splice(index, 1)\<close>.\<close>

fun remove_by_id :: "qmsg list \<Rightarrow> string \<Rightarrow> nat list \<Rightarrow> nat list" where
  "remove_by_id os i [] = []"
| "remove_by_id os i (r # rs) = (if mid (os ! r) = i then rs else r # remove_by_id os i rs)"

text \<open>One turn of the loop of \<open>processQueue\<close>: the id joins the in-flight set and
  \<open>processMessage\<close> runs up to its \<open>await\<close>: the attempt is counted, the events are
  emitted and the execution is handed out.\<close>

definition dispatch :: "string \<Rightarrow> nat \<Rightarrow> mq \<Rightarrow> mq" where
  "dispatch queueName r s =
     (let m = objs s ! r;
          m' = m\<lparr>attempts := Suc (attempts m)\<rparr>;
          p = (case processing s queueName of None \<Rightarrow> [] | Some p \<Rightarrow> p)
      in s\<lparr>objs := (objs s)[r := m'],
            processing := (processing s)(queueName \<mapsto> set_add (mid m) p),
            events := events s @ [MessageProcessing queueName (mid m) (attempts m'),
                                  MessageExecute queueName r],
            awaiting := awaiting s @ [(queueName, r)]\<rparr>)"

definition readyMessages :: "mq \<Rightarrow> nat list \<Rightarrow> string list \<Rightarrow> int \<Rightarrow> nat list" where
  "readyMessages s queue p now =
     filter (\<lambda>r. scheduledFor (objs s ! r) \<le> now \<and> mid (objs s ! r) \<notin> set p) queue"

text \<open>The messages that a drain of the queue at instant \<open>now\<close> dispatches, in the order
  of dispatch.\<close>

definition batch :: "mq \<Rightarrow> string \<Rightarrow> int \<Rightarrow> nat list" where
  "batch s queueName now =
     (case queues s queueName of
        None \<Rightarrow> []
      | Some queue \<Rightarrow>
          (case processing s queueName of
             None \<Rightarrow> []
           | Some p \<Rightarrow>
               if maxConcurrent s \<le> length p then []
               else take (maxConcurrent s - length p) (readyMessages s queue p now)))"

definition processQueue :: "string \<Rightarrow> int \<Rightarrow> mq \<Rightarrow> mq" where
  "processQueue queueName now s = fold (dispatch queueName) (batch s queueName now) s"

text \<open>\<open>this.queues.get(queueName) || []\<close>\<close>

definition queue_of :: "mq \<Rightarrow> string \<Rightarrow> nat list" where
  "queue_of s queueName = (case queues s queueName of None \<Rightarrow> [] | Some xs \<Rightarrow> xs)"

text \<open>\<open>addMessage\<close>: the object literal \<open>queueMessage\<close>; the insertion (the queue and
  its in-flight set are created when the name is new, the object is pushed and the list
  sorted, the counter and the event follow); and the immediate drain.\<close>

definition queueMessage :: "mq \<Rightarrow> string \<Rightarrow> options \<Rightarrow> string \<Rightarrow> int \<Rightarrow> qmsg" where
  "queueMessage s message opts generatedId now =
     \<lparr>mid = (case opt_id opts of None \<Rightarrow> generatedId | Some i \<Rightarrow> i),
      payload = message,
      priority = (case opt_priority opts of None \<Rightarrow> 0 | Some p \<Rightarrow> p),
      delay = (case opt_delay opts of None \<Rightarrow> defaultDelay s | Some d \<Rightarrow> d),
      maxRetries = (case opt_maxRetries opts of None \<Rightarrow> defaultMaxRetries s | Some n \<Rightarrow> n),
      attempts = 0,
      createdAt = now,
      scheduledFor = now + (case opt_delay opts of None \<Rightarrow> defaultDelay s | Some d \<Rightarrow> d)\<rparr>"

definition enqueue :: "string \<Rightarrow> qmsg \<Rightarrow> mq \<Rightarrow> mq" where
  "enqueue queueName m s =
     (let os = objs s @ [m];
          queue = sort_queue os (queue_of s queueName @ [length (objs s)])
      in s\<lparr>objs := os,
            queues := (queues s)(queueName \<mapsto> queue),
            processing := (case queues s queueName of
                             None \<Rightarrow> (processing s)(queueName \<mapsto> [])
                           | Some _ \<Rightarrow> processing s),
            stat_queued := Suc (stat_queued s),
            events := events s @ [MessageQueued queueName (mid m) (length queue)]\<rparr>)"

definition addMessage :: "string \<Rightarrow> string \<Rightarrow> options \<Rightarrow> string \<Rightarrow> int \<Rightarrow> mq \<Rightarrow> mq" where
  "addMessage queueName message opts generatedId now s =
     processQueue queueName now
       (enqueue queueName (queueMessage s message opts generatedId now) s)"

text \<open>The continuation of \<open>processMessage\<close> once the callback has come. The handlers are
  only ever called for a queue that exists; for a missing one the method call on
  \<open>undefined\<close> would throw before any change.\<close>

definition handleSuccess :: "string \<Rightarrow> nat \<Rightarrow> int \<Rightarrow> mq \<Rightarrow> mq" where
  "handleSuccess queueName r now s =
     (case queues s queueName of
        None \<Rightarrow> s\<lparr>awaiting := remove1 (queueName, r) (awaiting s)\<rparr>
      | Some queue \<Rightarrow>
          (let m = objs s ! r;
               p = (case processing s queueName of None \<Rightarrow> [] | Some p \<Rightarrow> p)
           in s\<lparr>queues := (queues s)(queueName \<mapsto> remove_by_id (objs s) (mid m) queue),
                 processing := (processing s)(queueName \<mapsto> removeAll (mid m) p),
                 stat_processed := Suc (stat_processed s),
                 events := events s @
                   [MessageCompleted queueName (mid m) (now - createdAt m) (attempts m)],
                 awaiting := remove1 (queueName, r) (awaiting s)\<rparr>))"

text \<open>\<open>delay * Math.pow(2, attempts - 1)\<close>; \<open>attempts\<close> is at least 1 whenever a
  handler runs, since \<open>processMessage\<close> has counted the attempt before.\<close>

definition backoff :: "qmsg \<Rightarrow> int" where
  "backoff m = delay m * 2 ^ (attempts m - 1)"

definition handleFailure :: "string \<Rightarrow> nat \<Rightarrow> int \<Rightarrow> mq \<Rightarrow> mq" where
  "handleFailure queueName r now s =
     (case queues s queueName of
        None \<Rightarrow> s\<lparr>awaiting := remove1 (queueName, r) (awaiting s)\<rparr>
      | Some queue \<Rightarrow>
          (let m = objs s ! r;
               p = (case processing s queueName of None \<Rightarrow> [] | Some p \<Rightarrow> p);
               s1 = s\<lparr>processing := (processing s)(queueName \<mapsto> removeAll (mid m) p),
                       awaiting := remove1 (queueName, r) (awaiting s)\<rparr>
           in if int (attempts m) < maxRetries m then
                (let m' = m\<lparr>scheduledFor := now + backoff m\<rparr>;
                     os = (objs s1)[r := m']
                 in s1\<lparr>objs := os,
                        queues := (queues s1)(queueName \<mapsto> sort_queue os queue),
                        stat_retried := Suc (stat_retried s1),
                        events := events s1 @
                          [MessageRetry queueName (mid m) (attempts m) (maxRetries m)
                             (scheduledFor m')]\<rparr>)
              else
                s1\<lparr>queues := (queues s1)(queueName \<mapsto> remove_by_id (objs s1) (mid m) queue),
                    stat_failed := Suc (stat_failed s1),
                    events := events s1 @ [MessageFailed queueName (mid m) (attempts m)]\<rparr>))"

definition removeMessage :: "string \<Rightarrow> string \<Rightarrow> mq \<Rightarrow> mq" where
  "removeMessage queueName msgId s =
     (case queues s queueName of
        None \<Rightarrow> s
      | Some queue \<Rightarrow>
          if list_ex (\<lambda>r. mid (objs s ! r) = msgId) queue then
            s\<lparr>queues := (queues s)(queueName \<mapsto> remove_by_id (objs s) msgId queue),
              events := events s @ [MessageRemoved queueName msgId]\<rparr>
          else s)"

definition clearQueue :: "string \<Rightarrow> mq \<Rightarrow> mq" where
  "clearQueue queueName s =
     (case queues s queueName of
        None \<Rightarrow> s
      | Some queue \<Rightarrow>
          s\<lparr>queues := (queues s)(queueName \<mapsto> []),
            events := events s @ [QueueCleared queueName (length queue)]\<rparr>)"

definition pauseQueue :: "string \<Rightarrow> mq \<Rightarrow> mq" where
  "pauseQueue queueName s =
     s\<lparr>delays := set_add queueName (delays s),
       events := events s @ [QueuePaused queueName]\<rparr>"

definition resumeQueue :: "string \<Rightarrow> int \<Rightarrow> mq \<Rightarrow> mq" where
  "resumeQueue queueName now s =
     processQueue queueName now
       (s\<lparr>delays := removeAll queueName (delays s),
          events := events s @ [QueueResumed queueName]\<rparr>)"

definition persistQueue :: "string \<Rightarrow> mq \<Rightarrow> mq" where
  "persistQueue queueName s =
     s\<lparr>persisted := (persisted s)(queueName \<mapsto>
          map (\<lambda>r. objs s ! r) (queue_of s queueName))\<rparr>"

text \<open>\<open>restoreQueue\<close>: a saved list replaces the queue, as fresh objects, and the
  in-flight set is replaced by a new empty one, whatever it held.\<close>

definition restoreQueue :: "string \<Rightarrow> int \<Rightarrow> mq \<Rightarrow> mq" where
  "restoreQueue queueName now s =
     (case persisted s queueName of
        None \<Rightarrow> s
      | Some savedQueue \<Rightarrow>
          processQueue queueName now
            (s\<lparr>objs := objs s @ savedQueue,
               queues := (queues s)(queueName \<mapsto>
                  [length (objs s) ..< length (objs s) + length savedQueue]),
               processing := (processing s)(queueName \<mapsto> [])\<rparr>))"

text \<open>
  The transitions of a queue manager. Drains are started by \<open>addMessage\<close>,
  \<open>resumeQueue\<close> and \<open>restoreQueue\<close> themselves and, as \<open>ProcessQueue\<close>, by the timers
  of the handlers and by the health check. A handler runs for an execution that is
  awaiting its callback.
\<close>

datatype action =
    AddMessage string string options string int
  | ProcessQueue string int
  | HandleSuccess string nat int
  | HandleFailure string nat int
  | RemoveMessage string string
  | ClearQueue string
  | PauseQueue string
  | ResumeQueue string int
  | PersistQueue string
  | RestoreQueue string int

fun enabled :: "action \<Rightarrow> mq \<Rightarrow> bool" where
  "enabled (HandleSuccess q r now) s = ((q, r) \<in> set (awaiting s))"
| "enabled (HandleFailure q r now) s = ((q, r) \<in> set (awaiting s))"
| "enabled _ s = True"

fun step :: "action \<Rightarrow> mq \<Rightarrow> mq" where
  "step (AddMessage q message opts generatedId now) s = addMessage q message opts generatedId now s"
| "step (ProcessQueue q now) s = processQueue q now s"
| "step (HandleSuccess q r now) s = handleSuccess q r now s"
| "step (HandleFailure q r now) s = handleFailure q r now s"
| "step (RemoveMessage q i) s = removeMessage q i s"
| "step (ClearQueue q) s = clearQueue q s"
| "step (PauseQueue q) s = pauseQueue q s"
| "step (ResumeQueue q now) s = resumeQueue q now s"
| "step (PersistQueue q) s = persistQueue q s"
| "step (RestoreQueue q now) s = restoreQueue q now s"

fun run :: "action list \<Rightarrow> mq \<Rightarrow> mq option" where
  "run [] s = Some s"
| "run (a # as) s = (if enabled a s then run as (step a s) else None)"

inductive reachable :: "mq \<Rightarrow> bool" where
  reachable_new: "reachable new_queue"
| reachable_step: "reachable s \<Longrightarrow> enabled a s \<Longrightarrow> reachable (step a s)"


text \<open>The in-flight set of a queue (empty for a name that has none), and the invariants
  of the transitions.\<close>

definition pq :: "mq \<Rightarrow> string \<Rightarrow> string list" where
  "pq s q = (case processing s q of None \<Rightarrow> [] | Some p \<Rightarrow> p)"













definition opts_now :: options where
  "opts_now = \<lparr>opt_priority = None, opt_delay = Some 0, opt_maxRetries = None, opt_id = Some ''m1''\<rparr>"










definition eleven :: "int list" where
  "eleven = [0, 5000, 10000, 15000, 20000, 25000, 30000, 35000, 40000, 45000, 50000]"

section \<open>Properties of the rate limiter\<close>

lemma key_families_disjoint:
  "ratelimit_key t u \<noteq> violations_key u'"
  "ratelimit_key t u \<noteq> tempban_key u'"
  "ratelimit_key t u \<noteq> spam_freq_key u'"
  "ratelimit_key t u \<noteq> spam_content_key u'"
  "ratelimit_key t u \<noteq> spam_violations_key u'"
  "violations_key u \<noteq> tempban_key u'"
  "violations_key u \<noteq> spam_freq_key u'"
  "violations_key u \<noteq> spam_content_key u'"
  "violations_key u \<noteq> spam_violations_key u'"
  "tempban_key u \<noteq> spam_freq_key u'"
  "tempban_key u \<noteq> spam_content_key u'"
  "tempban_key u \<noteq> spam_violations_key u'"
  "spam_freq_key u \<noteq> spam_content_key u'"
  "spam_freq_key u \<noteq> spam_violations_key u'"
  "spam_content_key u \<noteq> spam_violations_key u'"
  by (simp_all add: ratelimit_key_def violations_key_def tempban_key_def spam_freq_key_def
      spam_content_key_def spam_violations_key_def)

lemma recordViolation_no_fault:
  "faults c = [] \<Longrightarrow> \<exists>c'. recordViolation u t now c = (Inr (), c') \<and> faults c' = []
      \<and> rl_requests c' = rl_requests c"
  by (simp add: recordViolation_def temporaryBan_def cache_get_def cache_set_def take_fault_def Let_def)

lemma checkLimit_denied:
  assumes "faults c = []" and a: "checkLimit u t cl now c = (r, c')"
    and "max_l (resolve_limit t cl) \<le> int (length (valid_at c u t cl now))"
  shows "faults c' = [] \<and> \<not> allowed r \<and> remaining r = 0 \<and> rl_requests c' = rl_requests c"
proof -
  obtain c2 where rv: "recordViolation u t now c = (Inr (), c2)" "faults c2 = []"
    "rl_requests c2 = rl_requests c"
    using recordViolation_no_fault[OF assms(1)] by blast
  have c1: "take_fault c = (False, c)" using assms(1) by (simp add: take_fault_def)
  show ?thesis
    using a rv c1 assms(3)
    by (auto simp: checkLimit_def checkLimit_try_def cache_get_def Let_def valid_at_def)
qed

lemma checkLimit_accepted:
  assumes "faults c = []" and a: "checkLimit u t cl now c = (r, c')"
    and "\<not> max_l (resolve_limit t cl) \<le> int (length (valid_at c u t cl now))"
  shows "faults c' = [] \<and> allowed r \<and>
     rl_requests c' = (rl_requests c)(ratelimit_key t u \<mapsto>
        (valid_at c u t cl now @ [now],
         now + effective_ttl c (ceil_div1000 (window (resolve_limit t cl))) * 1000))"
proof -
  have c1: "take_fault c = (False, c)" using assms(1) by (simp add: take_fault_def)
  show ?thesis
    using a c1 assms(1,3)
    by (auto simp: checkLimit_def checkLimit_try_def cache_get_def cache_set_def Let_def valid_at_def)
qed

lemma checkLimits_append:
  "checkLimits u t cl (xs @ ys) c =
     (case checkLimits u t cl xs c of
        (rs, c1) \<Rightarrow> (case checkLimits u t cl ys c1 of (rs', c2) \<Rightarrow> (rs @ rs', c2)))"
proof (induction xs arbitrary: c)
  case Nil
  show ?case by (simp split: prod.splits)
next
  case (Cons x xs)
  obtain r c1 where s: "checkLimit u t cl x c = (r, c1)" by force
  obtain rs c2 where s2: "checkLimits u t cl xs c1 = (rs, c2)" by force
  obtain rs' c3 where s3: "checkLimits u t cl ys c2 = (rs', c3)" by force
  show ?case using Cons.IH[of c1] s s2 s3 by simp
qed

lemma ceil_div1000_ge:
  assumes "0 < w"
  shows "w \<le> ceil_div1000 w * 1000 \<and> ceil_div1000 w \<noteq> 0"
proof -
  have "(w + 999) mod 1000 < 1000" by simp
  moreover have "(w + 999) div 1000 * 1000 + (w + 999) mod 1000 = w + 999"
    by (rule div_mult_mod_eq)
  ultimately have "w \<le> (w + 999) div 1000 * 1000" by linarith
  then show ?thesis using assms unfolding ceil_div1000_def by auto
qed

lemma sorted_hd_le: "sorted (xs::int list) \<Longrightarrow> y \<in> set xs \<Longrightarrow> hd xs \<le> y"
  by (cases xs) auto

lemma valid_at_all:
  assumes "rl_requests c (ratelimit_key t u) = Some (E @ ts, e)" and "now \<le> e"
    and "\<forall>y\<in>set ts. now - y < window (resolve_limit t cl)"
  shows "valid_at c u t cl now = filter (\<lambda>x. now - x < window (resolve_limit t cl)) E @ ts"
  using assms by (simp add: valid_at_def live_def)


lemma accepted_trace:
  assumes "faults c = []"
  shows "ts \<noteq> [] \<Longrightarrow> sorted ts \<Longrightarrow> last ts - hd ts < window (resolve_limit t cl)
     \<Longrightarrow> checkLimits u t cl ts c = (rs, c1) \<Longrightarrow> \<forall>r\<in>set rs. allowed r
     \<Longrightarrow> faults c1 = [] \<and> (\<exists>E e. rl_requests c1 (ratelimit_key t u) = Some (E @ ts, e)
           \<and> last ts + window (resolve_limit t cl) \<le> e
           \<and> int (length (E @ ts)) \<le> max_l (resolve_limit t cl))"
proof (induction ts arbitrary: rs c1 rule: rev_induct)
  case Nil
  then show ?case by simp
next
  case (snoc x xs)
  let ?w = "window (resolve_limit t cl)"
  let ?key = "ratelimit_key t u"
  obtain rs0 c0 where r0: "checkLimits u t cl xs c = (rs0, c0)" by force
  obtain r where r1: "checkLimit u t cl x c0 = (r, c1)" and rs: "rs = rs0 @ [r]"
    using snoc.prems(4) r0 by (auto simp: checkLimits_append split: prod.splits)
  have al: "\<forall>r\<in>set rs0. allowed r" "allowed r" using snoc.prems(5) rs by auto
  have sx: "sorted xs" and lx: "\<forall>y\<in>set xs. y \<le> x"
    using snoc.prems(2) by (simp_all add: sorted_append)
  have hdle: "hd (xs @ [x]) \<le> x"
    using lx by (cases xs) auto
  have wpos: "0 < ?w" using snoc.prems(3) hdle by simp
  have f0: "faults c0 = []"
  proof (cases "xs = []")
    case True with r0 assms show ?thesis by simp
  next
    case False
    then have "last xs \<le> x" "hd (xs @ [x]) = hd xs" using lx by simp_all
    then have "last xs - hd xs < ?w" using snoc.prems(3) by simp
    then show ?thesis using snoc.IH[OF False sx _ r0 al(1)] by simp
  qed
  let ?e = "x + effective_ttl c0 (ceil_div1000 ?w) * 1000"
  have acc: "\<not> max_l (resolve_limit t cl) \<le> int (length (valid_at c0 u t cl x))"
    using checkLimit_denied[OF f0 r1] al(2) by blast
  from checkLimit_accepted[OF f0 r1 acc]
  have st: "faults c1 = []"
    "rl_requests c1 ?key = Some (valid_at c0 u t cl x @ [x], ?e)"
    by simp_all
  have e: "x + ?w \<le> ?e"
    using ceil_div1000_ge[OF wpos] by (simp add: effective_ttl_def)
  have len: "int (length (valid_at c0 u t cl x @ [x])) \<le> max_l (resolve_limit t cl)"
    using acc by simp
  show ?case
  proof (cases "xs = []")
    case True
    have "rl_requests c1 ?key = Some (valid_at c0 u t cl x @ (xs @ [x]), ?e)"
      using st(2) True by simp
    moreover have "int (length (valid_at c0 u t cl x @ (xs @ [x]))) \<le> max_l (resolve_limit t cl)"
      using len True by simp
    ultimately show ?thesis using st(1) e by (metis last_snoc)
  next
    case False
    then have l0: "last xs \<le> x" "hd (xs @ [x]) = hd xs" using lx by simp_all
    then have w0: "last xs - hd xs < ?w" using snoc.prems(3) by simp
    from snoc.IH[OF False sx w0 r0 al(1)] obtain E e0 where
      ih: "rl_requests c0 ?key = Some (E @ xs, e0)" "last xs + ?w \<le> e0"
      by blast
    have xh: "x - hd xs < ?w" using snoc.prems(3) l0 by simp
    have "hd xs \<le> last xs" using sx False sorted_hd_le by (metis last_in_set)
    then have alive: "x \<le> e0" using ih(2) xh by simp
    have inw: "\<forall>y\<in>set xs. x - y < ?w"
    proof
      fix y assume "y \<in> set xs"
      then have "hd xs \<le> y" using sx sorted_hd_le by blast
      with xh show "x - y < ?w" by simp
    qed
    let ?E = "filter (\<lambda>y. x - y < ?w) E"
    have v: "valid_at c0 u t cl x = ?E @ xs"
      by (rule valid_at_all[OF ih(1) alive inw])
    have "rl_requests c1 ?key = Some (?E @ (xs @ [x]), ?e)"
      using st(2) v by simp
    moreover have "int (length (?E @ (xs @ [x]))) \<le> max_l (resolve_limit t cl)"
      using len v by simp
    ultimately show ?thesis using st(1) e by (metis last_snoc)
  qed
qed


lemma recordViolation_frame:
  assumes "recordViolation u t now c = (Inr x, c')"
  shows "rl_requests c' = rl_requests c \<and> spam_freq c' = spam_freq c
     \<and> spam_content c' = spam_content c \<and> spam_violations c' = spam_violations c
     \<and> cacheTTL c' = cacheTTL c
     \<and> (\<forall>k. k \<noteq> violations_key u \<longrightarrow> rl_violations c' k = rl_violations c k)
     \<and> rl_violations c' (violations_key u) =
          Some (prior_violations c u now @ [\<lparr>vtype = t, vtimestamp = now\<rparr>], now + 3600000)
     \<and> (\<forall>k. k \<noteq> tempban_key u \<longrightarrow> rl_tempbans c' k = rl_tempbans c k)
     \<and> rl_tempbans c' (tempban_key u) =
          (if 5 \<le> length (prior_violations c u now @ [\<lparr>vtype = t, vtimestamp = now\<rparr>])
           then Some (\<lparr>banUserId = u, bannedAt = now, duration = 3600000,
                        reason = ''Rate limit violations''\<rparr>, now + 3600000)
           else rl_tempbans c (tempban_key u))"
  using assms
  by (auto simp: recordViolation_def temporaryBan_def cache_get_def cache_set_def take_fault_def
      effective_ttl_def ceil_div1000_def prior_violations_def Let_def
      split: list.splits if_splits bool.splits prod.splits sum.splits)

lemma cache_get_frame:
  assumes "cache_get family key now c = (x, c1)"
  shows "rl_requests c1 = rl_requests c \<and> rl_violations c1 = rl_violations c
     \<and> rl_tempbans c1 = rl_tempbans c \<and> spam_freq c1 = spam_freq c
     \<and> spam_content c1 = spam_content c \<and> spam_violations c1 = spam_violations c
     \<and> cacheTTL c1 = cacheTTL c"
  using assms by (auto simp: cache_get_def take_fault_def split: list.splits bool.splits)

text \<open>
  Claim C10. Whenever \<open>checkLimit\<close> denies a request, the timestamp lists of the rate
  limiter are left as they were, for every key: the denied request consumes no quota. The
  only entries of the cache that change are the subject's violation list, which gains one
  record for this denial, and the subject's temporary ban, which is written exactly when
  the violation list has reached five records.
\<close>

theorem checkLimit_denied_frame:
  assumes "checkLimit u t cl now c = (r, c')" and "\<not> allowed r"
  shows "rl_requests c' = rl_requests c \<and> spam_freq c' = spam_freq c
     \<and> spam_content c' = spam_content c \<and> spam_violations c' = spam_violations c
     \<and> cacheTTL c' = cacheTTL c
     \<and> (\<forall>k. k \<noteq> violations_key u \<longrightarrow> rl_violations c' k = rl_violations c k)
     \<and> rl_violations c' (violations_key u) =
          Some (prior_violations c u now @ [\<lparr>vtype = t, vtimestamp = now\<rparr>], now + 3600000)
     \<and> (\<forall>k. k \<noteq> tempban_key u \<longrightarrow> rl_tempbans c' k = rl_tempbans c k)
     \<and> rl_tempbans c' (tempban_key u) =
          (if 5 \<le> length (prior_violations c u now @ [\<lparr>vtype = t, vtimestamp = now\<rparr>])
           then Some (\<lparr>banUserId = u, bannedAt = now, duration = 3600000,
                        reason = ''Rate limit violations''\<rparr>, now + 3600000)
           else rl_tempbans c (tempban_key u))"
proof -
  from assms obtain c1 v x where
    g: "cache_get rl_requests (ratelimit_key t u) now c = (Inr v, c1)"
    and rv: "recordViolation u t now c1 = (Inr x, c')"
    by (auto simp: checkLimit_def checkLimit_try_def Let_def
        split: prod.splits sum.splits if_splits)
  from cache_get_frame[OF g] have "prior_violations c1 u now = prior_violations c u now"
    by (simp add: prior_violations_def)
  with recordViolation_frame[OF rv] cache_get_frame[OF g] show ?thesis by simp
qed

theorem checkLimit_denied_frame_witness:
  "\<exists>r c'. checkLimit ''u'' ''media'' (Some \<lparr>max_l = 1, window = 1000\<rparr>) 5
            (empty_cache\<lparr>rl_requests := [ratelimit_key ''media'' ''u'' \<mapsto> ([0], 1000)]\<rparr>) = (r, c')
      \<and> \<not> allowed r
      \<and> rl_requests c' = [ratelimit_key ''media'' ''u'' \<mapsto> ([0], 1000)]
      \<and> rl_violations c' (violations_key ''u'') =
            Some ([\<lparr>vtype = ''media'', vtimestamp = 5\<rparr>], 3600005)
      \<and> rl_violations c' (violations_key ''w'') = None
      \<and> rl_tempbans c' (tempban_key ''u'') = None"
proof -
  let ?c = "empty_cache\<lparr>rl_requests := [ratelimit_key ''media'' ''u'' \<mapsto> ([0], 1000)]\<rparr>"
  obtain r c' where
    a: "checkLimit ''u'' ''media'' (Some \<lparr>max_l = 1, window = 1000\<rparr>) 5 ?c = (r, c')"
    by force
  have f: "faults ?c = []" by (simp add: empty_cache_def)
  have v: "valid_at ?c ''u'' ''media'' (Some \<lparr>max_l = 1, window = 1000\<rparr>) 5 = [0]"
    by (simp add: valid_at_def live_def resolve_limit_def)
  have d: "\<not> allowed r" using checkLimit_denied[OF f a] v by (simp add: resolve_limit_def)
  have p: "prior_violations ?c ''u'' 5 = []"
    by (simp add: prior_violations_def live_def empty_cache_def)
  have k: "violations_key ''w'' \<noteq> violations_key ''u''" by (simp add: violations_key_def)
  from checkLimit_denied_frame[OF a d] p k
  have "rl_requests c' = [ratelimit_key ''media'' ''u'' \<mapsto> ([0], 1000)]"
    "rl_violations c' (violations_key ''u'') = Some ([\<lparr>vtype = ''media'', vtimestamp = 5\<rparr>], 3600005)"
    "rl_violations c' (violations_key ''w'') = None"
    "rl_tempbans c' (tempban_key ''u'') = None"
    by (simp_all add: empty_cache_def)
  with a d show ?thesis by blast
qed

text \<open>
  Claim C2. Sliding window: on a cache that does not fail, when \<open>max\<close> requests of a
  subject in a category were accepted at the instants \<open>ts\<close> (in the order of the clock)
  and a further call comes while the first of them is still less than \<open>windowMs\<close> old,
  that call is denied with \<open>remaining = 0\<close>; and a call made once \<open>windowMs\<close> has
  elapsed since the first request is accepted, whether or not the denied call came in
  between.
\<close>

theorem sliding_window:
  assumes "faults c = []"
    and "int (length ts) = max_l (resolve_limit t cl)" and "ts \<noteq> []" and "sorted ts"
    and "checkLimits u t cl ts c = (rs, c1)" and "\<forall>r\<in>set rs. allowed r"
    and "last ts \<le> now" and "now - hd ts < window (resolve_limit t cl)"
    and "checkLimit u t cl now c1 = (r, c2)"
    and "now \<le> now'" and "window (resolve_limit t cl) \<le> now' - hd ts"
  shows "\<not> allowed r \<and> remaining r = 0
     \<and> allowed (fst (checkLimit u t cl now' c2)) \<and> allowed (fst (checkLimit u t cl now' c1))"
proof -
  let ?w = "window (resolve_limit t cl)"
  let ?key = "ratelimit_key t u"
  have hl: "hd ts \<le> last ts" using assms(3,4) sorted_hd_le by (metis last_in_set)
  have w: "last ts - hd ts < ?w" using assms(7,8) by simp
  from accepted_trace[OF assms(1,3,4) w assms(5,6)] obtain E e where
    f1: "faults c1 = []" and st0: "rl_requests c1 ?key = Some (E @ ts, e)"
    and ex: "last ts + ?w \<le> e" and len: "int (length (E @ ts)) \<le> max_l (resolve_limit t cl)"
    by blast
  have E: "E = []" using len assms(2) by simp
  have st: "rl_requests c1 ?key = Some ([] @ ts, e)" using st0 E by simp
  have alive: "now \<le> e" using ex assms(8) hl by simp
  have inw: "\<forall>y\<in>set ts. now - y < ?w"
  proof
    fix y assume "y \<in> set ts"
    then have "hd ts \<le> y" using assms(4) sorted_hd_le by blast
    with assms(8) show "now - y < ?w" by simp
  qed
  have vis: "valid_at c1 u t cl now = ts"
    using valid_at_all[OF st alive inw] by simp
  have full: "max_l (resolve_limit t cl) \<le> int (length (valid_at c1 u t cl now))"
    using vis assms(2) by simp
  from checkLimit_denied[OF f1 assms(9) full]
  have d: "faults c2 = []" "\<not> allowed r" "remaining r = 0" "rl_requests c2 = rl_requests c1"
    by simp_all
  have drop: "length (filter (\<lambda>x. now' - x < ?w) ts) < length ts"
  proof -
    obtain y ys where ts: "ts = y # ys" using assms(3) by (cases ts) auto
    have "\<not> now' - y < ?w" using assms(11) ts by simp
    then have "length (filter (\<lambda>x. now' - x < ?w) ts) \<le> length ys"
      using ts by simp
    then show ?thesis using ts by simp
  qed
  have short: "\<not> max_l (resolve_limit t cl) \<le> int (length (valid_at cc u t cl now'))"
    if "rl_requests cc ?key = Some (ts, e)" for cc
  proof (cases "e < now'")
    case True
    then have "valid_at cc u t cl now' = []" using that by (simp add: valid_at_def live_def)
    then have "int (length (valid_at cc u t cl now')) = 0" by simp
    moreover have "0 < int (length ts)" using assms(3) by simp
    ultimately show ?thesis using assms(2) by linarith
  next
    case False
    then have "valid_at cc u t cl now' = filter (\<lambda>x. now' - x < ?w) ts"
      using that by (simp add: valid_at_def live_def)
    then show ?thesis using drop assms(2) by simp
  qed
  obtain r2 c3 where s2: "checkLimit u t cl now' c2 = (r2, c3)" by force
  obtain r1 c4 where s1: "checkLimit u t cl now' c1 = (r1, c4)" by force
  have k1: "rl_requests c1 ?key = Some (ts, e)" using st by simp
  have k2: "rl_requests c2 ?key = Some (ts, e)" using st d(4) by simp
  have "allowed r2" using checkLimit_accepted[OF d(1) s2 short[OF k2]] by simp
  moreover have "allowed r1" using checkLimit_accepted[OF f1 s1 short[OF k1]] by simp
  ultimately show ?thesis using d s1 s2 by simp
qed

theorem sliding_window_witness:
  "faults empty_cache = []
   \<and> int (length [0, 10 :: int]) = max_l (resolve_limit ''commands'' (Some \<lparr>max_l = 2, window = 1000\<rparr>))
   \<and> sorted [0, 10 :: int]
   \<and> map allowed (fst (checkLimits ''u'' ''commands'' (Some \<lparr>max_l = 2, window = 1000\<rparr>) [0, 10] empty_cache))
        = [True, True]
   \<and> \<not> allowed (fst (checkLimit ''u'' ''commands'' (Some \<lparr>max_l = 2, window = 1000\<rparr>) 20
          (snd (checkLimits ''u'' ''commands'' (Some \<lparr>max_l = 2, window = 1000\<rparr>) [0, 10] empty_cache))))
   \<and> allowed (fst (checkLimit ''u'' ''commands'' (Some \<lparr>max_l = 2, window = 1000\<rparr>) 1000
          (snd (checkLimit ''u'' ''commands'' (Some \<lparr>max_l = 2, window = 1000\<rparr>) 20
            (snd (checkLimits ''u'' ''commands'' (Some \<lparr>max_l = 2, window = 1000\<rparr>) [0, 10] empty_cache))))))"
proof -
  let ?cl = "Some \<lparr>max_l = 2, window = 1000\<rparr>"
  obtain rs c1 where a: "checkLimits ''u'' ''commands'' ?cl [0, 10] empty_cache = (rs, c1)"
    by force
  obtain r c2 where b: "checkLimit ''u'' ''commands'' ?cl 20 c1 = (r, c2)"
    by force
  have f: "faults empty_cache = []" by (simp add: empty_cache_def)
  have m: "int (length [0, 10 :: int]) = max_l (resolve_limit ''commands'' ?cl)"
    by (simp add: resolve_limit_def)
  have s: "sorted [0, 10 :: int]" by simp
  have al': "map allowed rs = [True, True]"
    using a
    by (auto simp: checkLimit_def checkLimit_try_def cache_get_def cache_set_def take_fault_def
        live_def resolve_limit_def empty_cache_def effective_ttl_def ceil_div1000_def
        ratelimit_key_def Let_def)
  then have "set (map allowed rs) = {True}" by simp
  then have al: "\<forall>r\<in>set rs. allowed r" by auto
  have "\<not> allowed r \<and> remaining r = 0
       \<and> allowed (fst (checkLimit ''u'' ''commands'' ?cl 1000 c2))
       \<and> allowed (fst (checkLimit ''u'' ''commands'' ?cl 1000 c1))"
    by (rule sliding_window[OF f m _ s a al _ _ b]) (simp_all add: resolve_limit_def)
  then show ?thesis
    unfolding a b fst_conv snd_conv using f m s al' by blast
qed

section \<open>Properties of the message queue\<close>




lemma dispatch_processing_None:
  "processing (dispatch q r s) q' = None \<longleftrightarrow> q' \<noteq> q \<and> processing s q' = None"
  by (simp add: dispatch_def Let_def)








lemma fold_dispatch_processing_None:
  "processing (fold (dispatch q) rs s) q' = None \<Longrightarrow> processing s q' = None"
proof (induction rs arbitrary: s)
  case Nil
  then show ?case by simp
next
  case (Cons r rs)
  then have "processing (dispatch q r s) q' = None" by simp
  then show ?case by (simp add: dispatch_processing_None)
qed























lemma pq_upd:
  "pq (s\<lparr>processing := (processing s)(q \<mapsto> p)\<rparr>) q' = (if q' = q then p else pq s q')"
  by (simp add: pq_def)























lemma run_reachable: "reachable s \<Longrightarrow> run as s = Some s' \<Longrightarrow> reachable s'"
  by (induction as arbitrary: s) (auto split: if_splits intro: reachable_step)




lemmas queue_eval =
  new_queue_def addMessage_def enqueue_def queueMessage_def processQueue_def batch_def
  readyMessages_def dispatch_def sort_queue_def queue_of_def msg_key_def set_add_def pq_def
  handleFailure_def handleSuccess_def backoff_def restoreQueue_def persistQueue_def
  pauseQueue_def resumeQueue_def removeMessage_def clearQueue_def Let_def less_eq_prod_def
  less_prod_def







text \<open>
  Claim C7 fails on the code: \<open>pauseQueue\<close> records the name in \<open>delays\<close>, and
  \<open>processQueue\<close> never reads \<open>delays\<close>. A message added to a paused queue with no delay
  is dispatched at once, while the queue is still marked paused.
\<close>

theorem paused_queue_still_dispatches:
  "delays (addMessage ''q'' ''x'' opts_now ''g'' 0 (pauseQueue ''q'' new_queue)) = [''q'']
   \<and> awaiting (addMessage ''q'' ''x'' opts_now ''g'' 0 (pauseQueue ''q'' new_queue)) = [(''q'', 0)]
   \<and> events (addMessage ''q'' ''x'' opts_now ''g'' 0 (pauseQueue ''q'' new_queue)) =
       [QueuePaused ''q'', MessageQueued ''q'' ''m1'' 1, MessageProcessing ''q'' ''m1'' 1,
        MessageExecute ''q'' 0]"
  by (simp add: queue_eval opts_now_def)













section \<open>Properties of the anti-spam engine and of the dispatcher\<close>

lemma checkLimit_fail_open:
  "checkLimit_try u t cl now c = (Inl e, c') \<Longrightarrow>
     checkLimit u t cl now c =
       (\<lparr>allowed = True, remaining = 0, resetTime = Some 0, retryAfter = Some 0\<rparr>, c')"
  by (simp add: checkLimit_def)

lemma checkSpam_fail_open:
  "checkSpam_try rt a u m ctx now c = (Inl e, c') \<Longrightarrow> checkSpam rt a u m ctx now c = (SpamError e, c')"
  by (simp add: checkSpam_def)

lemma checkSpam_try_spam:
  assumes "checkSpam_try rt a u m ctx now c = (Inr r, c')" and "isSpam_result r"
  shows "\<exists>sev inds settled. r = Spam sev inds (PromiseOf settled) 0"
  using assms unfolding checkSpam_try_def Let_def
  by (auto split: if_splits prod.splits sum.splits)

lemma checkSpam_never_waits:
  assumes "checkSpam rt a u m ctx now c = (r, c')" and "isSpam_result r"
  shows "waitTime_of r = Some 0 \<and> (\<exists>settled. action_of r = Some (PromiseOf settled))"
proof -
  obtain x c1 where t: "checkSpam_try rt a u m ctx now c = (x, c1)" by force
  show ?thesis
  proof (cases x)
    case (Inl e)
    then show ?thesis using assms t by (auto simp: checkSpam_def)
  next
    case (Inr r')
    then have "r' = r" using assms(1) t by (simp add: checkSpam_def)
    then show ?thesis using checkSpam_try_spam[of rt a u m ctx now c r c1] t Inr assms(2) by auto
  qed
qed









text \<open>
  Claim C3 fails on the code: gate 5 calls \<open>checkLimit(sender, commandName)\<close>, so the
  category is the name of the command. For \<open>ping\<close> that is no known category: the limit
  is the one of \<open>messages\<close> (20 per minute) and the bucket is \<open>ratelimit_ping_<sender>\<close>.
  Eleven invocations in 50 seconds are all executed and the \<open>commands\<close> bucket is never
  written, while eleven requests against the category \<open>commands\<close> (10 per minute) have
  the last one denied.
\<close>

theorem gate5_uses_command_name:
  "map (\<lambda>effects. Execute ''ping'' \<in> set effects)
       (fst (handleCommands demo_env private_chat ''ping'' eleven new_bot))
     = [True, True, True, True, True, True, True, True, True, True, True]
   \<and> rl_requests (bot_cache (snd (handleCommands demo_env private_chat ''ping'' eleven new_bot)))
       (ratelimit_key ''ping'' ''member@s'') = Some (eleven, 110000)
   \<and> rl_requests (bot_cache (snd (handleCommands demo_env private_chat ''ping'' eleven new_bot)))
       (ratelimit_key ''commands'' ''member@s'') = None
   \<and> map allowed (fst (checkLimits ''member@s'' ''commands'' None eleven empty_cache))
     = [True, True, True, True, True, True, True, True, True, True, False]
   \<and> resolve_limit ''ping'' None = \<lparr>max_l = 20, window = 60000\<rparr>
   \<and> resolve_limit ''commands'' None = \<lparr>max_l = 10, window = 60000\<rparr>"
  by code_simp

text \<open>
  Claim C1 fails on the code: \<open>determineAction\<close> is \<open>async\<close> and \<open>checkSpam\<close> calls it
  without \<open>await\<close>. The sixth message of a subject within ten seconds is classified as
  spam with severity 6/5; the promise of \<open>determineAction\<close> settles to \<open>throttle\<close>, but
  the \<open>action\<close> of the result is the promise, not that string, and \<open>waitTime\<close> is 0
  where \<open>calculateWaitTime\<close> gives 6000.
\<close>

theorem checkSpam_action_is_a_promise:
  "last (fst (checkSpams no_match new_antiSpam ''u'' [0, 1, 2, 3, 4, 5] empty_cache))
     = Spam (6 / 5) [''message_frequency''] (PromiseOf (Inr ''throttle'')) 0
   \<and> calculateWaitTime (6 / 5) = 6000"
  by code_simp


end
